theory Spec2Isabelle
  imports Main "HOL-Library.Word"
begin

unbundle bit_operations_syntax

section \<open>GPIO controlled clock (drivers/clk/clk-gpio.c)\<close>

text \<open>
  The driver is a thin layer between three collaborators whose code is not part of the
  file: the GPIO subsystem, the memory allocator and the clock-tree framework (plus the
  device-tree accessors used by the delayed registration). The driver's own functions are
  translated statement by statement. The collaborators are modelled as operations on a
  \<open>world\<close>: each call is appended to a trace, and whatever a collaborator may answer
  (an error code, a pointer, a handle) is taken from an \<open>env\<close> that is a parameter of
  every theorem.
\<close>

subsection \<open>Data\<close>

type_synonym device = nat
type_synonym clk = nat

text \<open>The only operation table of the file, \<^verbatim>\<open>clk_gpio_ops\<close>.\<close>

datatype clk_ops = clk_gpio_ops

text \<open>\<^verbatim>\<open>struct clk_init_data\<close>; \<^verbatim>\<open>unsigned long\<close> is 32 bits wide on the AM335x.\<close>

record clk_init_data =
  init_name :: string
  init_ops :: clk_ops
  init_flags :: "32 word"
  init_parent_names :: "string list"
  init_num_parents :: nat

text \<open>\<^verbatim>\<open>struct clk_gpio\<close>: the embedded \<^verbatim>\<open>hw\<close> (of which only \<^verbatim>\<open>hw.init\<close> is
  written here), the line number and the polarity.\<close>

record clk_gpio =
  hw_init :: clk_init_data
  cg_gpio :: nat
  cg_active_low :: bool

text \<open>Modelled from the spec: \<^verbatim>\<open>linux/gpio.h\<close> is not part of the file. The two request
  flags the driver uses ask for an output line that is driven low, or high, at the moment
  of the request (the spec's request-line-as-output with an initial level).\<close>

datatype gpio_flags = GPIOF_OUT_INIT_LOW | GPIOF_OUT_INIT_HIGH

text \<open>Arguments of a \<^verbatim>\<open>pr_err\<close> format string.\<close>

datatype fmt_arg = S string | U nat

record device_node =
  node_name :: string

datatype event =
    Gpio_request_one nat gpio_flags string
  | Devm_gpio_request_one device nat gpio_flags string
  | Gpio_free nat
  | Gpio_set_value nat int
  | Gpio_get_value nat
  | Kzalloc
  | Devm_kzalloc device
  | Kfree nat
  | Clk_register "device option" clk_gpio
  | Pr_err string "fmt_arg list"
  | Mutex_lock
  | Mutex_unlock
  | Of_get_named_gpio_flags device_node string nat
  | Of_clk_get_parent_name device_node nat

text \<open>
  The world outside the driver: the electrical level of every GPIO line (\<open>True\<close> is
  high), the clocks the clock-tree framework has accepted, with the hardware record each
  was registered with, and the calls made so far.
\<close>

record world =
  gpio_level :: "nat \<Rightarrow> bool"
  clocks :: "clk \<rightharpoonup> clk_gpio"
  trace :: "event list"

text \<open>
  What the collaborators answer during one call of a driver function: the return value of
  \<^verbatim>\<open>gpio_request_one\<close> (0 or a negative errno), the pointer returned by
  \<^verbatim>\<open>kzalloc\<close> (\<open>None\<close> is NULL), the result of \<^verbatim>\<open>clk_register\<close> (a clock, or
  \<open>Inl e\<close> for \<^verbatim>\<open>ERR_PTR(e)\<close> with a negative errno \<open>e\<close>), and the results of the
  two device-tree lookups (a line number or a negative errno, with the flags of the line;
  the name of the parent, if there is one).
\<close>

record env =
  gpio_request_one_ret :: int
  kzalloc_ret :: "nat option"
  clk_register_ret :: "int + clk"
  of_get_named_gpio_ret :: int
  of_get_named_gpio_flags_out :: "32 word"
  of_clk_get_parent_name_ret :: "string option"

subsection \<open>Constants of headers\<close>

text \<open>
  Modelled from the spec: the headers that declare these constants
  (\<^verbatim>\<open>linux/errno.h\<close>, \<^verbatim>\<open>linux/clk-provider.h\<close>, \<^verbatim>\<open>linux/of_gpio.h\<close>) are
  not part of the file. \<open>ENOMEM\<close> is the spec's OutOfMemory, \<open>EPROBE_DEFER\<close> its
  TemporarilyUnavailable; the values are those of the kernel headers.
\<close>

definition ENOMEM :: int where "ENOMEM = 12"
definition EPROBE_DEFER :: int where "EPROBE_DEFER = 517"
definition CLK_IS_BASIC :: "32 word" where "CLK_IS_BASIC = push_bit 5 1"
definition OF_GPIO_ACTIVE_LOW :: "32 word" where "OF_GPIO_ACTIVE_LOW = 1"

text \<open>\<^verbatim>\<open>IS_ERR\<close> on a \<^verbatim>\<open>struct clk *\<close>.\<close>

definition IS_ERR :: "int + clk \<Rightarrow> bool" where
  "IS_ERR p = (case p of Inl _ \<Rightarrow> True | Inr _ \<Rightarrow> False)"

subsection \<open>The collaborators\<close>

definition log :: "event \<Rightarrow> world \<Rightarrow> world" where
  "log ev w = w\<lparr>trace := trace w @ [ev]\<rparr>"

text \<open>
  Modelled from the spec: the GPIO subsystem is not part of the file. Following the
  interface the spec gives (request-line-as-output with an initial level, release,
  set-level, get-level): a successful request drives the line to the requested initial
  level, a write drives it to the level written (any non-zero value is high), and a read
  returns the level of the line, 0 or 1.
\<close>

definition gpio_request_one :: "env \<Rightarrow> nat \<Rightarrow> gpio_flags \<Rightarrow> string \<Rightarrow> world \<Rightarrow> int \<times> world" where
  "gpio_request_one e g fl label w =
     (let w1 = log (Gpio_request_one g fl label) w in
      if gpio_request_one_ret e = 0
      then (0, w1\<lparr>gpio_level := (gpio_level w1)(g := (fl = GPIOF_OUT_INIT_HIGH))\<rparr>)
      else (gpio_request_one_ret e, w1))"

definition devm_gpio_request_one ::
  "env \<Rightarrow> device \<Rightarrow> nat \<Rightarrow> gpio_flags \<Rightarrow> string \<Rightarrow> world \<Rightarrow> int \<times> world" where
  "devm_gpio_request_one e d g fl label w =
     (let w1 = log (Devm_gpio_request_one d g fl label) w in
      if gpio_request_one_ret e = 0
      then (0, w1\<lparr>gpio_level := (gpio_level w1)(g := (fl = GPIOF_OUT_INIT_HIGH))\<rparr>)
      else (gpio_request_one_ret e, w1))"

definition gpio_free :: "nat \<Rightarrow> world \<Rightarrow> world" where
  "gpio_free g w = log (Gpio_free g) w"

definition gpio_set_value :: "nat \<Rightarrow> int \<Rightarrow> world \<Rightarrow> world" where
  "gpio_set_value g v w =
     (let w1 = log (Gpio_set_value g v) w in
      w1\<lparr>gpio_level := (gpio_level w1)(g := (v \<noteq> 0))\<rparr>)"

definition gpio_get_value :: "nat \<Rightarrow> world \<Rightarrow> int \<times> world" where
  "gpio_get_value g w = ((if gpio_level w g then 1 else 0), log (Gpio_get_value g) w)"

text \<open>
  Modelled from the spec: the allocator, the clock-tree framework, the logger and the
  device-tree accessors are not part of the file either. Each call is recorded and
  answers what \<open>env\<close> says; a successful \<^verbatim>\<open>clk_register\<close> enters the clock, with
  the hardware record it was given, into the framework's table.
\<close>

definition kzalloc :: "env \<Rightarrow> world \<Rightarrow> nat option \<times> world" where
  "kzalloc e w = (kzalloc_ret e, log Kzalloc w)"

definition devm_kzalloc :: "env \<Rightarrow> device \<Rightarrow> world \<Rightarrow> nat option \<times> world" where
  "devm_kzalloc e d w = (kzalloc_ret e, log (Devm_kzalloc d) w)"

definition kfree :: "nat \<Rightarrow> world \<Rightarrow> world" where
  "kfree p w = log (Kfree p) w"

definition clk_register :: "env \<Rightarrow> device option \<Rightarrow> clk_gpio \<Rightarrow> world \<Rightarrow> (int + clk) \<times> world" where
  "clk_register e dev hw w =
     (let w1 = log (Clk_register dev hw) w in
      case clk_register_ret e of
        Inl err \<Rightarrow> (Inl err, w1)
      | Inr c \<Rightarrow> (Inr c, w1\<lparr>clocks := (clocks w1)(c \<mapsto> hw)\<rparr>))"

definition pr_err :: "string \<Rightarrow> fmt_arg list \<Rightarrow> world \<Rightarrow> world" where
  "pr_err fmt args w = log (Pr_err fmt args) w"

definition mutex_lock :: "world \<Rightarrow> world" where
  "mutex_lock w = log Mutex_lock w"

definition mutex_unlock :: "world \<Rightarrow> world" where
  "mutex_unlock w = log Mutex_unlock w"

definition of_get_named_gpio_flags ::
  "env \<Rightarrow> device_node \<Rightarrow> string \<Rightarrow> nat \<Rightarrow> world \<Rightarrow> int \<times> 32 word \<times> world" where
  "of_get_named_gpio_flags e np propname index w =
     (of_get_named_gpio_ret e, of_get_named_gpio_flags_out e,
      log (Of_get_named_gpio_flags np propname index) w)"

definition of_clk_get_parent_name ::
  "env \<Rightarrow> device_node \<Rightarrow> nat \<Rightarrow> world \<Rightarrow> string option \<times> world" where
  "of_clk_get_parent_name e np index w =
     (of_clk_get_parent_name_ret e, log (Of_clk_get_parent_name np index) w)"

subsection \<open>Enable, disable, query\<close>

text \<open>\<^verbatim>\<open>clk_gpio_enable\<close>, \<^verbatim>\<open>clk_gpio_disable\<close> and \<^verbatim>\<open>clk_gpio_is_enabled\<close>; the
  argument is the \<^verbatim>\<open>struct clk_gpio\<close> that \<^verbatim>\<open>to_clk_gpio(hw)\<close> finds.\<close>

definition clk_gpio_enable :: "clk_gpio \<Rightarrow> world \<Rightarrow> int \<times> world" where
  "clk_gpio_enable gpio w =
     (let value = (if cg_active_low gpio then 0 else 1)
      in (0, gpio_set_value (cg_gpio gpio) value w))"

definition clk_gpio_disable :: "clk_gpio \<Rightarrow> world \<Rightarrow> world" where
  "clk_gpio_disable gpio w =
     (let value = (if cg_active_low gpio then 1 else 0)
      in gpio_set_value (cg_gpio gpio) value w)"

definition clk_gpio_is_enabled :: "clk_gpio \<Rightarrow> world \<Rightarrow> int \<times> world" where
  "clk_gpio_is_enabled gpio w =
     (let (value, w1) = gpio_get_value (cg_gpio gpio) w
      in ((if cg_active_low gpio then (if value = 0 then 1 else 0) else value), w1))"

subsection \<open>Registration\<close>

text \<open>The label \<^verbatim>\<open>clk_register_gpio_err\<close>: the line is freed when there is no device,
  and \<^verbatim>\<open>clk\<close> is returned.\<close>

definition clk_register_gpio_err ::
  "device option \<Rightarrow> nat \<Rightarrow> int + clk \<Rightarrow> world \<Rightarrow> (int + clk) \<times> world" where
  "clk_register_gpio_err dev gpio clk w =
     (clk, if dev = None then gpio_free gpio w else w)"

text \<open>
  \<^verbatim>\<open>clk_register_gpio\<close>. With a device the managed variants of the request and of the
  allocation are called. \<^verbatim>\<open>clk\<close> starts as \<^verbatim>\<open>ERR_PTR(-EINVAL)\<close> and is overwritten
  on every path before it is returned.
\<close>

definition clk_register_gpio ::
  "env \<Rightarrow> device option \<Rightarrow> string \<Rightarrow> string option \<Rightarrow> 32 word \<Rightarrow> nat \<Rightarrow> bool \<Rightarrow> world
     \<Rightarrow> (int + clk) \<times> world" where
  "clk_register_gpio e dev name parent_name flags gpio active_low w =
     (let gpio_flags = (if active_low then GPIOF_OUT_INIT_LOW else GPIOF_OUT_INIT_HIGH);
          (err, w1) = (case dev of
                         Some d \<Rightarrow> devm_gpio_request_one e d gpio gpio_flags name w
                       | None \<Rightarrow> gpio_request_one e gpio gpio_flags name w)
      in if err \<noteq> 0 then
           clk_register_gpio_err dev gpio (Inl err)
             (pr_err (''%s: %s: Error requesting clock control gpio %u'' @ [CHR 0x0A])
                [S ''clk_register_gpio'', S name, U gpio] w1)
         else
           let (clk_gpio, w2) = (case dev of
                                   Some d \<Rightarrow> devm_kzalloc e d w1
                                 | None \<Rightarrow> kzalloc e w1)
           in case clk_gpio of
                None \<Rightarrow>
                  clk_register_gpio_err dev gpio (Inl (- ENOMEM))
                    (pr_err (''%s: %s: could not allocate gpio clk'' @ [CHR 0x0A])
                       [S ''clk_register_gpio'', S name] w2)
              | Some p \<Rightarrow>
                  let init = \<lparr>init_name = name,
                              init_ops = clk_gpio_ops,
                              init_flags = flags OR CLK_IS_BASIC,
                              init_parent_names = (case parent_name of Some pn \<Rightarrow> [pn] | None \<Rightarrow> []),
                              init_num_parents = (case parent_name of Some pn \<Rightarrow> 1 | None \<Rightarrow> 0)\<rparr>;
                      hw = \<lparr>hw_init = init, cg_gpio = gpio, cg_active_low = active_low\<rparr>;
                      (clk, w3) = clk_register e dev hw w2
                  in if \<not> IS_ERR clk then (clk, w3)
                     else clk_register_gpio_err dev gpio clk
                            (if dev = None then kfree p w3 else w3))"

subsection \<open>Delayed registration\<close>

text \<open>\<^verbatim>\<open>struct clk_gpio_delayed_register_data\<close>; \<open>d_clk = None\<close> is the NULL pointer the
  record starts with. The mutex appears as the lock and unlock calls of the trace.\<close>

record clk_gpio_delayed_register_data =
  d_node :: device_node
  d_clk :: "clk option"

text \<open>
  \<^verbatim>\<open>of_clk_gpio_delayed_register_get\<close>; \<^verbatim>\<open>clkspec\<close> is not used by the function. The
  result is the returned pointer, the record behind \<^verbatim>\<open>_data\<close> and the world.
\<close>

definition of_clk_gpio_delayed_register_get ::
  "env \<Rightarrow> clk_gpio_delayed_register_data \<Rightarrow> world
     \<Rightarrow> (int + clk) \<times> clk_gpio_delayed_register_data \<times> world" where
  "of_clk_gpio_delayed_register_get e data w =
     (let clk_name = node_name (d_node data);
          w1 = mutex_lock w
      in case d_clk data of
           Some c \<Rightarrow> (Inr c, data, mutex_unlock w1)
         | None \<Rightarrow>
             let (gpio, gpio_flags, w2) =
                   of_get_named_gpio_flags e (d_node data) ''enable-gpios'' 0 w1
             in if gpio < 0 then
                  let w3 = mutex_unlock w2;
                      w4 = (if gpio \<noteq> - EPROBE_DEFER
                            then pr_err (''%s: %s: Can't get 'enable-gpios' DT property'' @ [CHR 0x0A])
                                   [S ''of_clk_gpio_delayed_register_get'', S clk_name] w3
                            else w3)
                  in (Inl gpio, data, w4)
                else
                  let active_low = ((gpio_flags AND OF_GPIO_ACTIVE_LOW) \<noteq> 0);
                      (parent_name, w3) = of_clk_get_parent_name e (d_node data) 0 w2;
                      (clk, w4) = clk_register_gpio e None clk_name parent_name 0
                                    (nat gpio) active_low w3
                  in (case clk of
                        Inl err \<Rightarrow> (clk, data, mutex_unlock w4)
                      | Inr c \<Rightarrow> (clk, data\<lparr>d_clk := Some c\<rparr>, mutex_unlock w4)))"

subsection \<open>Concurrent callers\<close>

text \<open>
  Several threads inside \<^verbatim>\<open>of_clk_gpio_delayed_register_get\<close> on the same record. A
  thread is at one of the program points of the function, named after the statement it
  executes next, with the values of its local variables where later statements use them:
  \<^item> \<open>At_lock\<close>: \<^verbatim>\<open>mutex_lock(&data->lock)\<close>;
  \<^item> \<open>At_check\<close>: the test \<^verbatim>\<open>if (data->clk)\<close>;
  \<^item> \<open>At_unlock_cached\<close>, \<open>At_return_cached\<close>: the unlock and the
    \<^verbatim>\<open>return data->clk\<close> of the cached path, which reads the field again after the
    unlock (a field found NULL there would be returned as it is: \<open>Inl 0\<close>, the pointer
    \<^verbatim>\<open>ERR_PTR(0)\<close>);
  \<^item> \<open>At_lookup\<close>: \<^verbatim>\<open>of_get_named_gpio_flags\<close>;
  \<^item> \<open>At_unlock_failed\<close>, \<open>At_log_failed\<close>: the unlock and the \<^verbatim>\<open>pr_err\<close> and return
    of the failed lookup;
  \<^item> \<open>At_register\<close>: the parent name and \<^verbatim>\<open>clk_register_gpio\<close>;
  \<^item> \<open>At_unlock_error\<close>: the unlock and return of \<^verbatim>\<open>if (IS_ERR(clk))\<close>, with the error
    code of the pointer;
  \<^item> \<open>At_store\<close>: \<^verbatim>\<open>data->clk = clk\<close>;
  \<^item> \<open>At_unlock_stored\<close>: the last unlock and return;
  \<^item> \<open>Returned\<close>: the call has returned the given pointer.
\<close>

datatype pc =
    At_lock
  | At_check
  | At_unlock_cached
  | At_return_cached
  | At_lookup
  | At_unlock_failed int
  | At_log_failed int
  | At_register int "32 word"
  | At_unlock_error int
  | At_store clk
  | At_unlock_stored clk
  | Returned "int + clk"

text \<open>The record (with the owner of its mutex, if it is taken), the world, and where each
  thread is.\<close>

record system =
  sys_data :: clk_gpio_delayed_register_data
  sys_lock :: "nat option"
  sys_world :: world
  sys_pc :: "nat \<Rightarrow> pc"

definition goto :: "nat \<Rightarrow> pc \<Rightarrow> system \<Rightarrow> system" where
  "goto t p s = s\<lparr>sys_pc := (sys_pc s)(t := p)\<rparr>"

definition unlock :: "system \<Rightarrow> system" where
  "unlock s = s\<lparr>sys_lock := None, sys_world := mutex_unlock (sys_world s)\<rparr>"

text \<open>
  One statement of thread \<open>t\<close>. \<^verbatim>\<open>mutex_lock\<close> goes through only when the mutex is
  free; a thread that finds it taken stays where it is. \<open>envs t\<close> is what the
  collaborators answer to the call of thread \<open>t\<close>.
\<close>

definition step :: "(nat \<Rightarrow> env) \<Rightarrow> nat \<Rightarrow> system \<Rightarrow> system" where
  "step envs t s =
     (let e = envs t; data = sys_data s; w = sys_world s; clk_name = node_name (d_node data)
      in case sys_pc s t of
           At_lock \<Rightarrow>
             (case sys_lock s of
                None \<Rightarrow> goto t At_check (s\<lparr>sys_lock := Some t, sys_world := mutex_lock w\<rparr>)
              | Some owner \<Rightarrow> s)
         | At_check \<Rightarrow>
             (case d_clk data of
                Some c \<Rightarrow> goto t At_unlock_cached s
              | None \<Rightarrow> goto t At_lookup s)
         | At_unlock_cached \<Rightarrow> goto t At_return_cached (unlock s)
         | At_return_cached \<Rightarrow>
             goto t (Returned (case d_clk data of Some c \<Rightarrow> Inr c | None \<Rightarrow> Inl 0)) s
         | At_lookup \<Rightarrow>
             (let (gpio, gpio_flags, w1) =
                    of_get_named_gpio_flags e (d_node data) ''enable-gpios'' 0 w
              in goto t (if gpio < 0 then At_unlock_failed gpio else At_register gpio gpio_flags)
                   (s\<lparr>sys_world := w1\<rparr>))
         | At_unlock_failed gpio \<Rightarrow> goto t (At_log_failed gpio) (unlock s)
         | At_log_failed gpio \<Rightarrow>
             goto t (Returned (Inl gpio))
               (s\<lparr>sys_world :=
                    (if gpio \<noteq> - EPROBE_DEFER
                     then pr_err (''%s: %s: Can't get 'enable-gpios' DT property'' @ [CHR 0x0A])
                            [S ''of_clk_gpio_delayed_register_get'', S clk_name] w
                     else w)\<rparr>)
         | At_register gpio gpio_flags \<Rightarrow>
             (let active_low = ((gpio_flags AND OF_GPIO_ACTIVE_LOW) \<noteq> 0);
                  (parent_name, w1) = of_clk_get_parent_name e (d_node data) 0 w;
                  (clk, w2) = clk_register_gpio e None clk_name parent_name 0
                                (nat gpio) active_low w1
              in goto t (case clk of Inl err \<Rightarrow> At_unlock_error err | Inr c \<Rightarrow> At_store c)
                   (s\<lparr>sys_world := w2\<rparr>))
         | At_unlock_error err \<Rightarrow> goto t (Returned (Inl err)) (unlock s)
         | At_store c \<Rightarrow> goto t (At_unlock_stored c) (s\<lparr>sys_data := data\<lparr>d_clk := Some c\<rparr>\<rparr>)
         | At_unlock_stored c \<Rightarrow> goto t (Returned (Inr c)) (unlock s)
         | Returned r \<Rightarrow> s)"

text \<open>A schedule names the thread that executes the next statement. All threads start at
  \<^verbatim>\<open>mutex_lock\<close>, with the mutex free.\<close>

fun run :: "(nat \<Rightarrow> env) \<Rightarrow> nat list \<Rightarrow> system \<Rightarrow> system" where
  "run envs [] s = s"
| "run envs (t # ts) s = run envs ts (step envs t s)"


section \<open>Vocabulary of the properties\<close>

text \<open>The calls a driver function added to the trace.\<close>

definition new_events :: "world \<Rightarrow> world \<Rightarrow> event list" where
  "new_events w w' = drop (length (trace w)) (trace w')"

text \<open>The request and the allocation as \<^verbatim>\<open>clk_register_gpio\<close> issues them, with or
  without a device, and the record it hands to \<^verbatim>\<open>clk_register\<close>.\<close>

definition request_event :: "device option \<Rightarrow> nat \<Rightarrow> bool \<Rightarrow> string \<Rightarrow> event" where
  "request_event dev gpio active_low name =
     (let fl = (if active_low then GPIOF_OUT_INIT_LOW else GPIOF_OUT_INIT_HIGH)
      in case dev of Some d \<Rightarrow> Devm_gpio_request_one d gpio fl name
                   | None \<Rightarrow> Gpio_request_one gpio fl name)"

definition alloc_event :: "device option \<Rightarrow> event" where
  "alloc_event dev = (case dev of Some d \<Rightarrow> Devm_kzalloc d | None \<Rightarrow> Kzalloc)"

definition gate_record :: "string \<Rightarrow> string option \<Rightarrow> 32 word \<Rightarrow> nat \<Rightarrow> bool \<Rightarrow> clk_gpio" where
  "gate_record name parent_name flags gpio active_low =
     \<lparr>hw_init = \<lparr>init_name = name, init_ops = clk_gpio_ops,
                  init_flags = flags OR CLK_IS_BASIC,
                  init_parent_names = (case parent_name of Some pn \<Rightarrow> [pn] | None \<Rightarrow> []),
                  init_num_parents = (case parent_name of Some pn \<Rightarrow> 1 | None \<Rightarrow> 0)\<rparr>,
      cg_gpio = gpio, cg_active_low = active_low\<rparr>"

text \<open>Releases (of a line, of a record) and allocations among the calls of a trace.\<close>

fun is_release :: "event \<Rightarrow> bool" where
  "is_release (Gpio_free g) = True"
| "is_release (Kfree p) = True"
| "is_release ev = False"

fun is_allocation :: "event \<Rightarrow> bool" where
  "is_allocation Kzalloc = True"
| "is_allocation (Devm_kzalloc d) = True"
| "is_allocation ev = False"

text \<open>The flags of the registrations of a trace, in order.\<close>

fun registered_flags :: "event list \<Rightarrow> 32 word list" where
  "registered_flags [] = []"
| "registered_flags (Clk_register dev hw # evs) = init_flags (hw_init hw) # registered_flags evs"
| "registered_flags (ev # evs) = registered_flags evs"

text \<open>The answers of the collaborators under which \<^verbatim>\<open>clk_register_gpio\<close> fails.\<close>

definition construct_fails :: "env \<Rightarrow> bool" where
  "construct_fails e =
     (gpio_request_one_ret e \<noteq> 0 \<or> kzalloc_ret e = None \<or> IS_ERR (clk_register_ret e))"

text \<open>Calls of \<^verbatim>\<open>of_clk_gpio_delayed_register_get\<close> one after the other on the same
  record, each with its own answers of the collaborators.\<close>

fun resolve_all ::
  "env list \<Rightarrow> clk_gpio_delayed_register_data \<Rightarrow> world
     \<Rightarrow> (int + clk) list \<times> clk_gpio_delayed_register_data \<times> world" where
  "resolve_all [] data w = ([], data, w)"
| "resolve_all (e # es) data w =
     (let (r, data1, w1) = of_clk_gpio_delayed_register_get e data w;
          (rs, data2, w2) = resolve_all es data1 w1
      in (r # rs, data2, w2))"

text \<open>The first two calls of an unresolved \<^verbatim>\<open>of_clk_gpio_delayed_register_get\<close>, and
  the call of \<^verbatim>\<open>clk_register_gpio\<close> it makes once the line is known, in the world as it
  is at that point.\<close>

definition lookup_events :: "clk_gpio_delayed_register_data \<Rightarrow> event list" where
  "lookup_events data = [Mutex_lock, Of_get_named_gpio_flags (d_node data) ''enable-gpios'' 0]"

definition construct_call ::
  "env \<Rightarrow> clk_gpio_delayed_register_data \<Rightarrow> world \<Rightarrow> (int + clk) \<times> world" where
  "construct_call e data w =
     clk_register_gpio e None (node_name (d_node data)) (of_clk_get_parent_name_ret e) 0
       (nat (of_get_named_gpio_ret e))
       ((of_get_named_gpio_flags_out e AND OF_GPIO_ACTIVE_LOW) \<noteq> 0)
       (w\<lparr>trace := trace w @ lookup_events data @ [Of_clk_get_parent_name (d_node data) 0]\<rparr>)"












text \<open>The call of \<^verbatim>\<open>clk_register_gpio\<close> a thread at \<open>At_register\<close> makes.\<close>

definition register_call ::
  "env \<Rightarrow> clk_gpio_delayed_register_data \<Rightarrow> int \<Rightarrow> 32 word \<Rightarrow> world \<Rightarrow> (int + clk) \<times> world" where
  "register_call e data gpio gpio_flags w =
     clk_register_gpio e None (node_name (d_node data)) (of_clk_get_parent_name_ret e) 0
       (nat gpio) ((gpio_flags AND OF_GPIO_ACTIVE_LOW) \<noteq> 0)
       (log (Of_clk_get_parent_name (d_node data) 0) w)"

subsection \<open>Concrete inputs\<close>

text \<open>A world with every line low and no clock registered, and one with every line high;
  collaborators that all
  succeed (line 42, active low, no parent, record at 100, handle 7), and the same with one
  failure each: the line is busy (\<open>-EBUSY\<close>), the allocation fails, the clock name
  exists already (\<open>-EEXIST\<close>).\<close>

definition world0 :: world where
  "world0 = \<lparr>gpio_level = (\<lambda>g. False), clocks = Map.empty, trace = []\<rparr>"

definition world_high :: world where
  "world_high = \<lparr>gpio_level = (\<lambda>g. True), clocks = Map.empty, trace = []\<rparr>"

definition env_ok :: env where
  "env_ok = \<lparr>gpio_request_one_ret = 0, kzalloc_ret = Some 100, clk_register_ret = Inr 7,
     of_get_named_gpio_ret = 42, of_get_named_gpio_flags_out = 1,
     of_clk_get_parent_name_ret = None\<rparr>"

definition env_busy :: env where
  "env_busy = env_ok\<lparr>gpio_request_one_ret := - 16\<rparr>"

definition env_nomem :: env where
  "env_nomem = env_ok\<lparr>kzalloc_ret := None\<rparr>"

definition env_exist :: env where
  "env_exist = env_ok\<lparr>clk_register_ret := Inl (- 17)\<rparr>"

text \<open>A device-tree lookup that is deferred and one that finds no property
  (\<open>-ENOENT\<close>); an unresolved record for the node \<^verbatim>\<open>gclk\<close>; the world after a call
  on it whose registration failed.\<close>

definition env_defer :: env where
  "env_defer = env_ok\<lparr>of_get_named_gpio_ret := - EPROBE_DEFER\<rparr>"

definition env_noent :: env where
  "env_noent = env_ok\<lparr>of_get_named_gpio_ret := - 2\<rparr>"

definition data0 :: clk_gpio_delayed_register_data where
  "data0 = \<lparr>d_node = \<lparr>node_name = ''gclk''\<rparr>, d_clk = None\<rparr>"

definition retry_world :: world where
  "retry_world = snd (snd (of_clk_gpio_delayed_register_get env_exist data0 world0))"






section \<open>Properties\<close>

lemmas collaborators =
  log_def gpio_request_one_def devm_gpio_request_one_def gpio_free_def gpio_set_value_def
  gpio_get_value_def kzalloc_def devm_kzalloc_def kfree_def clk_register_def pr_err_def
  mutex_lock_def mutex_unlock_def of_get_named_gpio_flags_def of_clk_get_parent_name_def

subsection \<open>The clock operations\<close>

lemma gpio_level_set_value:
  "gpio_level (gpio_set_value g v w) = (gpio_level w)(g := (v \<noteq> 0))"
  by (simp add: gpio_set_value_def log_def)

lemma is_enabled_result:
  "fst (clk_gpio_is_enabled gpio w) =
     (if gpio_level w (cg_gpio gpio) \<noteq> cg_active_low gpio then 1 else 0)"
  by (simp add: clk_gpio_is_enabled_def gpio_get_value_def)

text \<open>
  C4. For either polarity, \<open>is_enabled\<close> after \<open>enable\<close> answers true (1) and after
  \<open>disable\<close> answers false (0); \<open>enable\<close> leaves the line low when the clock is active
  low and high otherwise, and \<open>disable\<close> leaves it at the opposite level.
\<close>

theorem enable_disable_round_trip:
  "fst (clk_gpio_is_enabled gpio (snd (clk_gpio_enable gpio w))) = 1 \<and>
   fst (clk_gpio_is_enabled gpio (clk_gpio_disable gpio w)) = 0 \<and>
   gpio_level (snd (clk_gpio_enable gpio w)) (cg_gpio gpio) = (\<not> cg_active_low gpio) \<and>
   gpio_level (clk_gpio_disable gpio w) (cg_gpio gpio) = cg_active_low gpio"
  by (simp add: is_enabled_result clk_gpio_enable_def clk_gpio_disable_def
      gpio_level_set_value)

text \<open>
  C7. For either polarity and any levels of the lines, a second \<open>enable\<close> (or a second
  \<open>disable\<close>) leaves every line at the level the first left it at, and \<open>is_enabled\<close>
  answers the same after two calls as after one.
\<close>

theorem enable_disable_idempotent:
  "gpio_level (snd (clk_gpio_enable gpio (snd (clk_gpio_enable gpio w)))) =
     gpio_level (snd (clk_gpio_enable gpio w)) \<and>
   fst (clk_gpio_is_enabled gpio (snd (clk_gpio_enable gpio (snd (clk_gpio_enable gpio w))))) =
     fst (clk_gpio_is_enabled gpio (snd (clk_gpio_enable gpio w))) \<and>
   gpio_level (clk_gpio_disable gpio (clk_gpio_disable gpio w)) =
     gpio_level (clk_gpio_disable gpio w) \<and>
   fst (clk_gpio_is_enabled gpio (clk_gpio_disable gpio (clk_gpio_disable gpio w))) =
     fst (clk_gpio_is_enabled gpio (clk_gpio_disable gpio w))"
  by (simp add: is_enabled_result clk_gpio_enable_def clk_gpio_disable_def
      gpio_level_set_value)

text \<open>
  C8. \<open>is_enabled\<close> reads the line once and changes nothing: its result is non-zero
  exactly when the level of the line is the active one (high for an active-high clock,
  low for an active-low one), and the world after the call is the world before it with
  one read of that line added to the trace.
\<close>

theorem is_enabled_pure_query:
  "(fst (clk_gpio_is_enabled gpio w) \<noteq> 0) = (gpio_level w (cg_gpio gpio) = (\<not> cg_active_low gpio)) \<and>
   snd (clk_gpio_is_enabled gpio w) = w\<lparr>trace := trace w @ [Gpio_get_value (cg_gpio gpio)]\<rparr>"
  by (auto simp add: clk_gpio_is_enabled_def gpio_get_value_def log_def)

subsection \<open>Registration\<close>

text \<open>The four outcomes of \<^verbatim>\<open>clk_register_gpio\<close>, by what the collaborators answer.\<close>

lemma clk_register_gpio_request_failed:
  "gpio_request_one_ret e \<noteq> 0 \<Longrightarrow>
   clk_register_gpio e dev name parent_name flags gpio active_low w =
     (Inl (gpio_request_one_ret e),
      w\<lparr>trace := trace w @
         [request_event dev gpio active_low name,
          Pr_err (''%s: %s: Error requesting clock control gpio %u'' @ [CHR 0x0A])
            [S ''clk_register_gpio'', S name, U gpio]] @
         (if dev = None then [Gpio_free gpio] else [])\<rparr>)"
  by (cases dev)
     (simp_all add: clk_register_gpio_def clk_register_gpio_err_def collaborators
        request_event_def)

lemma clk_register_gpio_alloc_failed:
  "gpio_request_one_ret e = 0 \<Longrightarrow> kzalloc_ret e = None \<Longrightarrow>
   clk_register_gpio e dev name parent_name flags gpio active_low w =
     (Inl (- ENOMEM),
      w\<lparr>gpio_level := (gpio_level w)(gpio := \<not> active_low),
        trace := trace w @
         [request_event dev gpio active_low name, alloc_event dev,
          Pr_err (''%s: %s: could not allocate gpio clk'' @ [CHR 0x0A])
            [S ''clk_register_gpio'', S name]] @
         (if dev = None then [Gpio_free gpio] else [])\<rparr>)"
  by (cases dev)
     (simp_all add: clk_register_gpio_def clk_register_gpio_err_def collaborators
        request_event_def alloc_event_def)

lemma clk_register_gpio_register_failed:
  "gpio_request_one_ret e = 0 \<Longrightarrow> kzalloc_ret e = Some p \<Longrightarrow> clk_register_ret e = Inl err \<Longrightarrow>
   clk_register_gpio e dev name parent_name flags gpio active_low w =
     (Inl err,
      w\<lparr>gpio_level := (gpio_level w)(gpio := \<not> active_low),
        trace := trace w @
         [request_event dev gpio active_low name, alloc_event dev,
          Clk_register dev (gate_record name parent_name flags gpio active_low)] @
         (if dev = None then [Kfree p, Gpio_free gpio] else [])\<rparr>)"
  by (cases dev)
     (simp_all add: clk_register_gpio_def clk_register_gpio_err_def collaborators
        request_event_def alloc_event_def gate_record_def IS_ERR_def Let_def)

lemma clk_register_gpio_registered:
  "gpio_request_one_ret e = 0 \<Longrightarrow> kzalloc_ret e = Some p \<Longrightarrow> clk_register_ret e = Inr c \<Longrightarrow>
   clk_register_gpio e dev name parent_name flags gpio active_low w =
     (Inr c,
      w\<lparr>gpio_level := (gpio_level w)(gpio := \<not> active_low),
        clocks := (clocks w)(c \<mapsto> gate_record name parent_name flags gpio active_low),
        trace := trace w @
         [request_event dev gpio active_low name, alloc_event dev,
          Clk_register dev (gate_record name parent_name flags gpio active_low)]\<rparr>)"
  by (cases dev)
     (simp_all add: clk_register_gpio_def clk_register_gpio_err_def collaborators
        request_event_def alloc_event_def gate_record_def IS_ERR_def Let_def)


lemma request_event_simps [simp]:
  "is_release (request_event dev gpio active_low name) = False"
  "is_allocation (request_event dev gpio active_low name) = False"
  "registered_flags (request_event dev gpio active_low name # evs) = registered_flags evs"
  by (cases dev; simp add: request_event_def)+

lemma alloc_event_simps [simp]:
  "is_release (alloc_event dev) = False"
  "is_allocation (alloc_event dev) = True"
  "registered_flags (alloc_event dev # evs) = registered_flags evs"
  by (cases dev; simp add: alloc_event_def)+

lemma new_events_append [simp]: "new_events w (w\<lparr>trace := trace w @ evs\<rparr>) = evs"
  by (simp add: new_events_def)

lemma new_events_append2 [simp]:
  "new_events w (w\<lparr>gpio_level := l, trace := trace w @ evs\<rparr>) = evs"
  "new_events w (w\<lparr>gpio_level := l, clocks := cs, trace := trace w @ evs\<rparr>) = evs"
  by (simp_all add: new_events_def)

lemma clk_register_gpio_IS_ERR:
  "IS_ERR (fst (clk_register_gpio e dev name parent_name flags gpio active_low w)) = construct_fails e"
proof (cases "gpio_request_one_ret e = 0")
  case False
  then show ?thesis
    by (simp add: clk_register_gpio_request_failed construct_fails_def IS_ERR_def)
next
  case req: True
  show ?thesis
  proof (cases "kzalloc_ret e")
    case None
    with req show ?thesis
      by (simp add: clk_register_gpio_alloc_failed construct_fails_def IS_ERR_def)
  next
    case (Some p)
    with req show ?thesis
      by (cases "clk_register_ret e")
         (simp_all add: clk_register_gpio_register_failed clk_register_gpio_registered
            construct_fails_def IS_ERR_def)
  qed
qed

lemma clk_register_gpio_trace:
  "\<exists>evs. trace (snd (clk_register_gpio e dev name parent_name flags gpio active_low w)) =
           trace w @ request_event dev gpio active_low name # evs"
proof (cases "gpio_request_one_ret e = 0")
  case False
  then show ?thesis
    by (simp add: clk_register_gpio_request_failed)
next
  case req: True
  show ?thesis
  proof (cases "kzalloc_ret e")
    case None
    with req show ?thesis
      by (simp add: clk_register_gpio_alloc_failed)
  next
    case (Some p)
    with req show ?thesis
      by (cases "clk_register_ret e")
         (simp_all add: clk_register_gpio_register_failed clk_register_gpio_registered)
  qed
qed

lemma new_events_trace:
  "trace w' = trace w @ evs \<Longrightarrow> new_events w w' = evs"
  by (simp add: new_events_def)

lemma registered_flags_append:
  "registered_flags (xs @ ys) = registered_flags xs @ registered_flags ys"
  by (induction xs rule: registered_flags.induct) simp_all

lemma registered_flags_gpio:
  "registered_flags (new_events w (snd (clk_register_gpio e dev name parent_name flags gpio active_low w))) =
     (if gpio_request_one_ret e = 0 \<and> kzalloc_ret e \<noteq> None then [flags OR CLK_IS_BASIC] else [])"
proof (cases "gpio_request_one_ret e = 0")
  case False
  then show ?thesis
    by (simp add: clk_register_gpio_request_failed)
next
  case req: True
  show ?thesis
  proof (cases "kzalloc_ret e")
    case None
    with req show ?thesis
      by (simp add: clk_register_gpio_alloc_failed)
  next
    case (Some p)
    with req show ?thesis
      by (cases "clk_register_ret e")
         (simp_all add: clk_register_gpio_register_failed clk_register_gpio_registered
            gate_record_def)
  qed
qed

text \<open>
  C1 (amended). For either polarity, a successful \<^verbatim>\<open>clk_register_gpio\<close> leaves the
  line at the active level of that polarity, low for an active-low clock and high for an
  active-high one (the request asks for \<^verbatim>\<open>GPIOF_OUT_INIT_LOW\<close> when \<^verbatim>\<open>active_low\<close>
  is set and for \<^verbatim>\<open>GPIOF_OUT_INIT_HIGH\<close> otherwise), and \<open>is_enabled\<close> on the clock
  just registered answers true (1).
\<close>

theorem register_initial_level:
  assumes "clk_register_gpio e dev name parent_name flags gpio active_low w = (Inr c, w')"
  shows "gpio_level w' gpio = (\<not> active_low) \<and>
     (\<exists>hw. clocks w' c = Some hw \<and> cg_gpio hw = gpio \<and> cg_active_low hw = active_low \<and>
           fst (clk_gpio_is_enabled hw w') = 1)"
proof -
  from assms have "\<not> IS_ERR (fst (clk_register_gpio e dev name parent_name flags gpio active_low w))"
    by (simp add: IS_ERR_def)
  then have ok: "gpio_request_one_ret e = 0" "kzalloc_ret e \<noteq> None" "\<not> IS_ERR (clk_register_ret e)"
    by (simp_all add: clk_register_gpio_IS_ERR construct_fails_def)
  then obtain p c' where "kzalloc_ret e = Some p" "clk_register_ret e = Inr c'"
    by (cases "clk_register_ret e") (auto simp add: IS_ERR_def)
  with ok assms show ?thesis
    by (auto simp add: clk_register_gpio_registered gate_record_def is_enabled_result)
qed

theorem register_initial_level_witness:
  "gpio_level (snd (clk_register_gpio env_ok None ''gclk'' None 0 42 False world0)) 42 \<and>
   (\<exists>hw. clocks (snd (clk_register_gpio env_ok None ''gclk'' None 0 42 False world0)) 7 = Some hw \<and>
         cg_gpio hw = 42 \<and> cg_active_low hw = False \<and>
         fst (clk_gpio_is_enabled hw (snd (clk_register_gpio env_ok None ''gclk'' None 0 42 False world0))) = 1)"
proof -
  have "clk_register_gpio env_ok None ''gclk'' None 0 42 False world0 =
          (Inr 7, snd (clk_register_gpio env_ok None ''gclk'' None 0 42 False world0))"
    by (simp add: clk_register_gpio_registered [where p = 100] env_ok_def)
  from register_initial_level [OF this] show ?thesis by simp
qed

text \<open>
  C1 as written fails: with \<^verbatim>\<open>active_low\<close> set and line 42 high beforehand,
  registration succeeds, the line is low afterwards, not high, and \<open>is_enabled\<close> on the
  registered clock answers 1, not false.
\<close>

theorem register_initial_level_counterexample:
  "fst (clk_register_gpio env_ok None ''gclk'' None 0 42 True world_high) = Inr 7 \<and>
   gpio_level world_high 42 = True \<and>
   gpio_level (snd (clk_register_gpio env_ok None ''gclk'' None 0 42 True world_high)) 42 = False \<and>
   clocks (snd (clk_register_gpio env_ok None ''gclk'' None 0 42 True world_high)) 7 =
     Some (gate_record ''gclk'' None 0 42 True) \<and>
   fst (clk_gpio_is_enabled (gate_record ''gclk'' None 0 42 True)
         (snd (clk_register_gpio env_ok None ''gclk'' None 0 42 True world_high))) = 1"
  by (simp add: clk_register_gpio_registered [where p = 100] env_ok_def is_enabled_result
      gate_record_def world_high_def)

text \<open>
  C2 (amended). When \<^verbatim>\<open>clk_register_gpio\<close> fails: if the request of the line failed,
  the error of the request is returned and nothing was allocated, and with a device
  nothing is released; if the allocation failed, \<open>-ENOMEM\<close> is returned and, without a
  device, the line is freed once and nothing else is released; if \<^verbatim>\<open>clk_register\<close>
  failed, its error is returned and, without a device, the record is freed once and then
  the line is freed once. With a device (the managed request and allocation) the
  function itself releases nothing on any of these paths.
\<close>

theorem register_rollback:
  assumes "clk_register_gpio e dev name parent_name flags gpio active_low w = (r, w')"
  shows
   "(gpio_request_one_ret e \<noteq> 0 \<longrightarrow>
       r = Inl (gpio_request_one_ret e) \<and> filter is_allocation (new_events w w') = [] \<and>
       (dev \<noteq> None \<longrightarrow> filter is_release (new_events w w') = [])) \<and>
    (gpio_request_one_ret e = 0 \<and> kzalloc_ret e = None \<longrightarrow>
       r = Inl (- ENOMEM) \<and>
       filter is_release (new_events w w') = (if dev = None then [Gpio_free gpio] else [])) \<and>
    (gpio_request_one_ret e = 0 \<and> kzalloc_ret e = Some p \<and> clk_register_ret e = Inl err \<longrightarrow>
       r = Inl err \<and>
       filter is_release (new_events w w') = (if dev = None then [Kfree p, Gpio_free gpio] else []))"
proof (intro conjI impI)
  assume "gpio_request_one_ret e \<noteq> 0"
  with assms have *: "r = Inl (gpio_request_one_ret e)"
       "w' = w\<lparr>trace := trace w @
         [request_event dev gpio active_low name,
          Pr_err (''%s: %s: Error requesting clock control gpio %u'' @ [CHR 0x0A])
            [S ''clk_register_gpio'', S name, U gpio]] @
         (if dev = None then [Gpio_free gpio] else [])\<rparr>"
    by (simp_all add: clk_register_gpio_request_failed)
  show "r = Inl (gpio_request_one_ret e)" by (rule *)
  show "filter is_allocation (new_events w w') = []" by (simp add: *)
  show "filter is_release (new_events w w') = []" if "dev \<noteq> None"
    using that by (simp add: *)
next
  assume "gpio_request_one_ret e = 0 \<and> kzalloc_ret e = None"
  with assms have *: "r = Inl (- ENOMEM)"
       "w' = w\<lparr>gpio_level := (gpio_level w)(gpio := \<not> active_low),
        trace := trace w @
         [request_event dev gpio active_low name, alloc_event dev,
          Pr_err (''%s: %s: could not allocate gpio clk'' @ [CHR 0x0A])
            [S ''clk_register_gpio'', S name]] @
         (if dev = None then [Gpio_free gpio] else [])\<rparr>"
    by (simp_all add: clk_register_gpio_alloc_failed)
  show "r = Inl (- ENOMEM)" by (rule *)
  show "filter is_release (new_events w w') = (if dev = None then [Gpio_free gpio] else [])"
    by (simp add: *)
next
  assume "gpio_request_one_ret e = 0 \<and> kzalloc_ret e = Some p \<and> clk_register_ret e = Inl err"
  with assms have *: "r = Inl err"
       "w' = w\<lparr>gpio_level := (gpio_level w)(gpio := \<not> active_low),
        trace := trace w @
         [request_event dev gpio active_low name, alloc_event dev,
          Clk_register dev (gate_record name parent_name flags gpio active_low)] @
         (if dev = None then [Kfree p, Gpio_free gpio] else [])\<rparr>"
    by (simp_all add: clk_register_gpio_register_failed)
  show "r = Inl err" by (rule *)
  show "filter is_release (new_events w w') = (if dev = None then [Kfree p, Gpio_free gpio] else [])"
    by (simp add: *)
qed

theorem register_rollback_witness:
  "fst (clk_register_gpio env_busy (Some 1) ''gclk'' None 0 42 True world0) = Inl (- 16) \<and>
   filter is_allocation (new_events world0
     (snd (clk_register_gpio env_busy (Some 1) ''gclk'' None 0 42 True world0))) = [] \<and>
   filter is_release (new_events world0
     (snd (clk_register_gpio env_busy (Some 1) ''gclk'' None 0 42 True world0))) = [] \<and>
   fst (clk_register_gpio env_nomem None ''gclk'' None 0 42 True world0) = Inl (- ENOMEM) \<and>
   filter is_release (new_events world0
     (snd (clk_register_gpio env_nomem None ''gclk'' None 0 42 True world0))) = [Gpio_free 42] \<and>
   fst (clk_register_gpio env_exist None ''gclk'' None 0 42 True world0) = Inl (- 17) \<and>
   filter is_release (new_events world0
     (snd (clk_register_gpio env_exist None ''gclk'' None 0 42 True world0))) =
     [Kfree 100, Gpio_free 42]"
proof -
  have busy: "gpio_request_one_ret env_busy \<noteq> 0" "gpio_request_one_ret env_busy = - 16"
    by (simp_all add: env_busy_def env_ok_def)
  have nomem: "gpio_request_one_ret env_nomem = 0 \<and> kzalloc_ret env_nomem = None"
    by (simp add: env_nomem_def env_ok_def)
  have exist: "gpio_request_one_ret env_exist = 0 \<and> kzalloc_ret env_exist = Some 100 \<and>
      clk_register_ret env_exist = Inl (- 17)"
    by (simp add: env_exist_def env_ok_def)
  note r = register_rollback [OF surjective_pairing]
  from r [of env_busy "Some 1" "''gclk''" None 0 42 True world0] busy
       r [of env_nomem None "''gclk''" None 0 42 True world0] nomem
       r [of env_exist None "''gclk''" None 0 42 True world0 100 "- 17"] exist
  show ?thesis by simp
qed

text \<open>
  C2 as written fails: with a device, when the allocation fails after the line was
  requested, the function logs the failure and returns \<open>-ENOMEM\<close> without freeing the
  line.
\<close>

theorem register_rollback_counterexample:
  "fst (clk_register_gpio env_nomem (Some 1) ''gclk'' None 0 42 True world0) = Inl (- ENOMEM) \<and>
   new_events world0 (snd (clk_register_gpio env_nomem (Some 1) ''gclk'' None 0 42 True world0)) =
     [Devm_gpio_request_one 1 42 GPIOF_OUT_INIT_LOW ''gclk'', Devm_kzalloc 1,
      Pr_err (''%s: %s: could not allocate gpio clk'' @ [CHR 0x0A])
        [S ''clk_register_gpio'', S ''gclk'']] \<and>
   filter is_release (new_events world0
     (snd (clk_register_gpio env_nomem (Some 1) ''gclk'' None 0 42 True world0))) = []"
  by (simp add: clk_register_gpio_alloc_failed env_nomem_def env_ok_def request_event_def
      alloc_event_def)

text \<open>
  Without a device, a failed request of the line is followed by \<^verbatim>\<open>gpio_free\<close> of that
  line, which the function never held: the jump to \<^verbatim>\<open>clk_register_gpio_err\<close> is taken
  from the request as well.
\<close>

lemma register_request_failed_frees:
  "new_events world0 (snd (clk_register_gpio env_busy None ''gclk'' None 0 42 True world0)) =
     [Gpio_request_one 42 GPIOF_OUT_INIT_LOW ''gclk'',
      Pr_err (''%s: %s: Error requesting clock control gpio %u'' @ [CHR 0x0A])
        [S ''clk_register_gpio'', S ''gclk'', U 42],
      Gpio_free 42]"
  by (simp add: clk_register_gpio_request_failed env_busy_def env_ok_def request_event_def)

subsection \<open>Delayed registration\<close>

text \<open>The paths of \<^verbatim>\<open>of_clk_gpio_delayed_register_get\<close>: the cached handle, the failed
  lookup, and the call of \<^verbatim>\<open>clk_register_gpio\<close>.\<close>

lemma get_cached:
  "d_clk data = Some c \<Longrightarrow>
   of_clk_gpio_delayed_register_get e data w =
     (Inr c, data, w\<lparr>trace := trace w @ [Mutex_lock, Mutex_unlock]\<rparr>)"
  by (simp add: of_clk_gpio_delayed_register_get_def mutex_lock_def mutex_unlock_def log_def)

lemma get_lookup_failed:
  "d_clk data = None \<Longrightarrow> of_get_named_gpio_ret e < 0 \<Longrightarrow>
   of_clk_gpio_delayed_register_get e data w =
     (Inl (of_get_named_gpio_ret e), data,
      w\<lparr>trace := trace w @ lookup_events data @ [Mutex_unlock] @
         (if of_get_named_gpio_ret e = - EPROBE_DEFER then []
          else [Pr_err (''%s: %s: Can't get 'enable-gpios' DT property'' @ [CHR 0x0A])
                  [S ''of_clk_gpio_delayed_register_get'', S (node_name (d_node data))]])\<rparr>)"
  by (simp add: of_clk_gpio_delayed_register_get_def mutex_lock_def mutex_unlock_def log_def
      of_get_named_gpio_flags_def pr_err_def lookup_events_def)

lemma get_construct:
  "d_clk data = None \<Longrightarrow> 0 \<le> of_get_named_gpio_ret e \<Longrightarrow>
   of_clk_gpio_delayed_register_get e data w =
     (fst (construct_call e data w),
      (case fst (construct_call e data w) of Inl err \<Rightarrow> data | Inr c \<Rightarrow> data\<lparr>d_clk := Some c\<rparr>),
      mutex_unlock (snd (construct_call e data w)))"
  by (simp add: of_clk_gpio_delayed_register_get_def mutex_lock_def log_def
      of_get_named_gpio_flags_def of_clk_get_parent_name_def lookup_events_def
      construct_call_def split: prod.splits sum.splits)


lemma get_construct_failed:
  assumes "d_clk data = None" "0 \<le> of_get_named_gpio_ret e" "construct_fails e"
  shows "of_clk_gpio_delayed_register_get e data w =
           (fst (construct_call e data w), data, mutex_unlock (snd (construct_call e data w)))"
    and "IS_ERR (fst (construct_call e data w))"
proof -
  show err: "IS_ERR (fst (construct_call e data w))"
    using assms(3) by (simp add: construct_call_def clk_register_gpio_IS_ERR)
  then show "of_clk_gpio_delayed_register_get e data w =
           (fst (construct_call e data w), data, mutex_unlock (snd (construct_call e data w)))"
    using assms(1,2) by (simp add: get_construct IS_ERR_def split: sum.splits)
qed

lemma get_constructed:
  assumes "d_clk data = None" "0 \<le> of_get_named_gpio_ret e" "\<not> construct_fails e"
  shows "\<exists>c. clk_register_ret e = Inr c \<and>
           of_clk_gpio_delayed_register_get e data w =
             (Inr c, data\<lparr>d_clk := Some c\<rparr>, mutex_unlock (snd (construct_call e data w)))"
proof -
  from assms(3) obtain p c where ok: "gpio_request_one_ret e = 0" "kzalloc_ret e = Some p"
      "clk_register_ret e = Inr c"
    by (cases "clk_register_ret e") (auto simp add: construct_fails_def IS_ERR_def)
  then have "fst (construct_call e data w) = Inr c"
    by (simp add: construct_call_def clk_register_gpio_registered)
  with assms(1,2) ok show ?thesis
    by (simp add: get_construct)
qed

lemma get_unresolved_events:
  assumes "d_clk data = None"
  shows "take 2 (new_events w (snd (snd (of_clk_gpio_delayed_register_get e data w)))) =
           lookup_events data"
    and "0 \<le> of_get_named_gpio_ret e \<Longrightarrow>
         take 4 (new_events w (snd (snd (of_clk_gpio_delayed_register_get e data w)))) =
           lookup_events data @
           [Of_clk_get_parent_name (d_node data) 0,
            request_event None (nat (of_get_named_gpio_ret e))
              ((of_get_named_gpio_flags_out e AND OF_GPIO_ACTIVE_LOW) \<noteq> 0)
              (node_name (d_node data))]"
proof -
  have tr: "0 \<le> of_get_named_gpio_ret e \<Longrightarrow>
      \<exists>evs. new_events w (snd (snd (of_clk_gpio_delayed_register_get e data w))) =
           lookup_events data @
           [Of_clk_get_parent_name (d_node data) 0,
            request_event None (nat (of_get_named_gpio_ret e))
              ((of_get_named_gpio_flags_out e AND OF_GPIO_ACTIVE_LOW) \<noteq> 0)
              (node_name (d_node data))] @ evs"
  proof -
    assume ok: "0 \<le> of_get_named_gpio_ret e"
    obtain evs where "trace (snd (construct_call e data w)) =
        (trace w @ lookup_events data @ [Of_clk_get_parent_name (d_node data) 0]) @
          request_event None (nat (of_get_named_gpio_ret e))
              ((of_get_named_gpio_flags_out e AND OF_GPIO_ACTIVE_LOW) \<noteq> 0)
              (node_name (d_node data)) # evs"
      unfolding construct_call_def
      using clk_register_gpio_trace [of e None "node_name (d_node data)"
          "of_clk_get_parent_name_ret e" 0 "nat (of_get_named_gpio_ret e)"
          "(of_get_named_gpio_flags_out e AND OF_GPIO_ACTIVE_LOW) \<noteq> 0"
          "w\<lparr>trace := trace w @ lookup_events data @ [Of_clk_get_parent_name (d_node data) 0]\<rparr>"]
      by auto
    with assms ok show ?thesis
      by (simp add: get_construct mutex_unlock_def log_def new_events_def)
  qed
  show "0 \<le> of_get_named_gpio_ret e \<Longrightarrow>
         take 4 (new_events w (snd (snd (of_clk_gpio_delayed_register_get e data w)))) =
           lookup_events data @
           [Of_clk_get_parent_name (d_node data) 0,
            request_event None (nat (of_get_named_gpio_ret e))
              ((of_get_named_gpio_flags_out e AND OF_GPIO_ACTIVE_LOW) \<noteq> 0)
              (node_name (d_node data))]"
    using tr by (auto simp add: lookup_events_def)
  show "take 2 (new_events w (snd (snd (of_clk_gpio_delayed_register_get e data w)))) =
           lookup_events data"
  proof (cases "0 \<le> of_get_named_gpio_ret e")
    case True
    with tr show ?thesis by (auto simp add: lookup_events_def)
  next
    case False
    with assms show ?thesis
      by (simp add: get_lookup_failed lookup_events_def)
  qed
qed


text \<open>
  C3. Once \<^verbatim>\<open>data->clk\<close> is set, any number of further calls, whatever the
  collaborators would answer, each return that handle and leave the record as it is; each
  call only takes and releases the mutex: the device tree is not read, no line is
  requested, no clock is registered, and no line level and no registered clock changes.
\<close>

theorem cached_handle_stable:
  "d_clk data = Some c \<Longrightarrow>
   resolve_all es data w =
     (replicate (length es) (Inr c), data,
      w\<lparr>trace := trace w @ concat (replicate (length es) [Mutex_lock, Mutex_unlock])\<rparr>)"
proof (induction es arbitrary: w)
  case Nil
  show ?case by simp
next
  case (Cons e es)
  from Cons.prems show ?case
    by (simp add: get_cached Cons.IH [OF Cons.prems])
qed

theorem cached_handle_stable_witness:
  "resolve_all [env_ok, env_busy] (data0\<lparr>d_clk := Some 7\<rparr>) world0 =
     ([Inr 7, Inr 7], data0\<lparr>d_clk := Some 7\<rparr>,
      world0\<lparr>trace := [Mutex_lock, Mutex_unlock, Mutex_lock, Mutex_unlock]\<rparr>)"
  using cached_handle_stable [of "data0\<lparr>d_clk := Some 7\<rparr>" 7 "[env_ok, env_busy]" world0]
  by (simp add: world0_def)

text \<open>
  C5. When the record is unresolved and the lookup of \<^verbatim>\<open>enable-gpios\<close> fails (a
  negative result), the call returns that error code and leaves the record as it is. Its
  only calls are the lock, the lookup and the unlock, followed by one \<^verbatim>\<open>pr_err\<close>
  unless the code is \<open>-EPROBE_DEFER\<close>: no line is requested and no clock is registered
  in either case.
\<close>

theorem lookup_failure:
  assumes "d_clk data = None" and "of_get_named_gpio_ret e < 0"
  shows "of_clk_gpio_delayed_register_get e data w =
     (Inl (of_get_named_gpio_ret e), data,
      w\<lparr>trace := trace w @
         [Mutex_lock, Of_get_named_gpio_flags (d_node data) ''enable-gpios'' 0, Mutex_unlock] @
         (if of_get_named_gpio_ret e = - EPROBE_DEFER then []
          else [Pr_err (''%s: %s: Can't get 'enable-gpios' DT property'' @ [CHR 0x0A])
                  [S ''of_clk_gpio_delayed_register_get'', S (node_name (d_node data))]])\<rparr>)"
  using assms by (simp add: get_lookup_failed lookup_events_def)

theorem lookup_failure_witness:
  "of_clk_gpio_delayed_register_get env_defer data0 world0 =
     (Inl (- EPROBE_DEFER), data0,
      world0\<lparr>trace :=
         [Mutex_lock, Of_get_named_gpio_flags \<lparr>node_name = ''gclk''\<rparr> ''enable-gpios'' 0,
          Mutex_unlock]\<rparr>) \<and>
   of_clk_gpio_delayed_register_get env_noent data0 world0 =
     (Inl (- 2), data0,
      world0\<lparr>trace :=
         [Mutex_lock, Of_get_named_gpio_flags \<lparr>node_name = ''gclk''\<rparr> ''enable-gpios'' 0,
          Mutex_unlock,
          Pr_err (''%s: %s: Can't get 'enable-gpios' DT property'' @ [CHR 0x0A])
            [S ''of_clk_gpio_delayed_register_get'', S ''gclk'']]\<rparr>)"
  using lookup_failure [of data0 env_defer world0] lookup_failure [of data0 env_noent world0]
  by (simp add: data0_def env_defer_def env_noent_def env_ok_def world0_def EPROBE_DEFER_def)

text \<open>
  C6. When the record is unresolved, the lookup succeeds and \<^verbatim>\<open>clk_register_gpio\<close>
  fails, the call returns the error \<^verbatim>\<open>clk_register_gpio\<close> returned and leaves the
  record unresolved and unchanged; the world it leaves is the world after
  \<^verbatim>\<open>clk_register_gpio\<close> with the mutex unlocked, the unlock being its last call, so the
  mutex is free for the next caller. The next call, whatever the collaborators answer then,
  starts again with the lock and the lookup of \<^verbatim>\<open>enable-gpios\<close>, and if that lookup
  succeeds it goes on to the parent name and to a new request of the line.
\<close>

theorem construct_failure_retry:
  assumes "d_clk data = None" and "0 \<le> of_get_named_gpio_ret e" and "construct_fails e"
    and "of_clk_gpio_delayed_register_get e data w = (r, data', w')"
  shows "IS_ERR r \<and> r = fst (construct_call e data w) \<and> data' = data \<and> d_clk data' = None \<and>
     w' = mutex_unlock (snd (construct_call e data w)) \<and> last (trace w') = Mutex_unlock \<and>
     take 2 (new_events w' (snd (snd (of_clk_gpio_delayed_register_get e2 data' w')))) =
       [Mutex_lock, Of_get_named_gpio_flags (d_node data) ''enable-gpios'' 0] \<and>
     (0 \<le> of_get_named_gpio_ret e2 \<longrightarrow>
        take 4 (new_events w' (snd (snd (of_clk_gpio_delayed_register_get e2 data' w')))) =
          [Mutex_lock, Of_get_named_gpio_flags (d_node data) ''enable-gpios'' 0,
           Of_clk_get_parent_name (d_node data) 0,
           Gpio_request_one (nat (of_get_named_gpio_ret e2))
             (if (of_get_named_gpio_flags_out e2 AND OF_GPIO_ACTIVE_LOW) \<noteq> 0
              then GPIOF_OUT_INIT_LOW else GPIOF_OUT_INIT_HIGH)
             (node_name (d_node data))])"
proof -
  from get_construct_failed [OF assms(1-3), of w] assms(4)
  have *: "IS_ERR r" "r = fst (construct_call e data w)" "data' = data"
    and w': "w' = mutex_unlock (snd (construct_call e data w))"
    by simp_all
  from w' have last: "last (trace w') = Mutex_unlock"
    by (simp add: mutex_unlock_def log_def)
  from * assms(1) get_unresolved_events [where data = data' and w = w' and e = e2]
  have "IS_ERR r \<and> r = fst (construct_call e data w) \<and> data' = data \<and> d_clk data' = None \<and>
     take 2 (new_events w' (snd (snd (of_clk_gpio_delayed_register_get e2 data' w')))) =
       [Mutex_lock, Of_get_named_gpio_flags (d_node data) ''enable-gpios'' 0] \<and>
     (0 \<le> of_get_named_gpio_ret e2 \<longrightarrow>
        take 4 (new_events w' (snd (snd (of_clk_gpio_delayed_register_get e2 data' w')))) =
          [Mutex_lock, Of_get_named_gpio_flags (d_node data) ''enable-gpios'' 0,
           Of_clk_get_parent_name (d_node data) 0,
           Gpio_request_one (nat (of_get_named_gpio_ret e2))
             (if (of_get_named_gpio_flags_out e2 AND OF_GPIO_ACTIVE_LOW) \<noteq> 0
              then GPIOF_OUT_INIT_LOW else GPIOF_OUT_INIT_HIGH)
             (node_name (d_node data))])"
    by (simp add: lookup_events_def request_event_def)
  with w' last show ?thesis by blast
qed

theorem construct_failure_retry_witness:
  "of_clk_gpio_delayed_register_get env_exist data0 world0 = (Inl (- 17), data0, retry_world) \<and>
   retry_world = mutex_unlock (snd (construct_call env_exist data0 world0)) \<and>
   last (trace retry_world) = Mutex_unlock \<and>
   take 4 (new_events retry_world
     (snd (snd (of_clk_gpio_delayed_register_get env_ok data0 retry_world)))) =
     [Mutex_lock, Of_get_named_gpio_flags \<lparr>node_name = ''gclk''\<rparr> ''enable-gpios'' 0,
      Of_clk_get_parent_name \<lparr>node_name = ''gclk''\<rparr> 0,
      Gpio_request_one 42 GPIOF_OUT_INIT_LOW ''gclk'']"
proof -
  have h: "d_clk data0 = None" "0 \<le> of_get_named_gpio_ret env_exist" "construct_fails env_exist"
    by (simp_all add: data0_def env_exist_def env_ok_def construct_fails_def IS_ERR_def)
  have ok: "0 \<le> of_get_named_gpio_ret env_ok"
    "(of_get_named_gpio_flags_out env_ok AND OF_GPIO_ACTIVE_LOW) \<noteq> 0"
    "nat (of_get_named_gpio_ret env_ok) = 42"
    by (simp_all add: env_ok_def OF_GPIO_ACTIVE_LOW_def)
  have c: "fst (construct_call env_exist data0 world0) = Inl (- 17)"
    by (simp add: construct_call_def env_exist_def env_ok_def
        clk_register_gpio_register_failed [where p = 100])
  have p: "of_clk_gpio_delayed_register_get env_exist data0 world0 =
      (Inl (- 17), data0, retry_world)"
    using get_construct_failed(1) [OF h, of world0] c by (simp add: retry_world_def)
  from construct_failure_retry [OF h p, of env_ok] ok p show ?thesis
    by (simp add: data0_def)
qed

text \<open>
  C10. Whenever \<^verbatim>\<open>clk_register_gpio\<close> reaches \<^verbatim>\<open>clk_register\<close> (the request and the
  allocation succeeded) it registers once, with the caller's flags ORed with
  \<^verbatim>\<open>CLK_IS_BASIC\<close>, and otherwise it does not register; a call of
  \<^verbatim>\<open>of_clk_gpio_delayed_register_get\<close> that registers does so with exactly
  \<^verbatim>\<open>CLK_IS_BASIC\<close>.
\<close>

theorem register_flags:
  "registered_flags (new_events w
      (snd (clk_register_gpio e dev name parent_name flags gpio active_low w))) =
     (if gpio_request_one_ret e = 0 \<and> kzalloc_ret e \<noteq> None then [flags OR CLK_IS_BASIC] else []) \<and>
   registered_flags (new_events w (snd (snd (of_clk_gpio_delayed_register_get e data w)))) =
     (if d_clk data = None \<and> 0 \<le> of_get_named_gpio_ret e \<and>
         gpio_request_one_ret e = 0 \<and> kzalloc_ret e \<noteq> None
      then [CLK_IS_BASIC] else [])"
proof
  show "registered_flags (new_events w
      (snd (clk_register_gpio e dev name parent_name flags gpio active_low w))) =
     (if gpio_request_one_ret e = 0 \<and> kzalloc_ret e \<noteq> None then [flags OR CLK_IS_BASIC] else [])"
    by (rule registered_flags_gpio)
  show "registered_flags (new_events w (snd (snd (of_clk_gpio_delayed_register_get e data w)))) =
     (if d_clk data = None \<and> 0 \<le> of_get_named_gpio_ret e \<and>
         gpio_request_one_ret e = 0 \<and> kzalloc_ret e \<noteq> None
      then [CLK_IS_BASIC] else [])"
  proof (cases "d_clk data")
    case (Some c)
    then show ?thesis by (simp add: get_cached)
  next
    case None
    show ?thesis
    proof (cases "0 \<le> of_get_named_gpio_ret e")
      case False
      with None show ?thesis
        by (simp add: get_lookup_failed lookup_events_def)
    next
      case True
      let ?w3 = "w\<lparr>trace := trace w @ lookup_events data @ [Of_clk_get_parent_name (d_node data) 0]\<rparr>"
      obtain evs where evs: "trace (snd (construct_call e data w)) = trace ?w3 @ evs"
        unfolding construct_call_def using clk_register_gpio_trace by blast
      then have "new_events ?w3 (snd (construct_call e data w)) = evs"
        by (rule new_events_trace)
      then have "registered_flags evs =
          (if gpio_request_one_ret e = 0 \<and> kzalloc_ret e \<noteq> None then [0 OR CLK_IS_BASIC] else [])"
        unfolding construct_call_def using registered_flags_gpio by metis
      moreover have "new_events w (snd (snd (of_clk_gpio_delayed_register_get e data w))) =
          lookup_events data @ [Of_clk_get_parent_name (d_node data) 0] @ evs @ [Mutex_unlock]"
        using None True evs
        by (simp add: get_construct mutex_unlock_def log_def new_events_def)
      ultimately show ?thesis
        using None True by (simp add: registered_flags_append lookup_events_def)
    qed
  qed
qed

theorem register_flags_witness:
  "registered_flags (new_events world0
      (snd (clk_register_gpio env_ok None ''gclk'' None 4 42 True world0))) = [36] \<and>
   registered_flags (new_events world0
      (snd (snd (of_clk_gpio_delayed_register_get env_ok data0 world0)))) = [32]"
  using register_flags [of world0 env_ok None "''gclk''" None 4 42 True data0]
  by (simp add: env_ok_def data0_def CLK_IS_BASIC_def)

subsection \<open>Concurrent callers\<close>

text \<open>The statement a thread executes, by program point.\<close>

lemma step_At_lock:
  "sys_pc s t = At_lock \<Longrightarrow>
   step envs t s =
     (case sys_lock s of
        None \<Rightarrow> s\<lparr>sys_lock := Some t, sys_world := mutex_lock (sys_world s),
                  sys_pc := (sys_pc s)(t := At_check)\<rparr>
      | Some owner \<Rightarrow> s)"
  by (simp add: step_def goto_def split: option.splits)

lemma step_At_check:
  "sys_pc s t = At_check \<Longrightarrow>
   step envs t s =
     s\<lparr>sys_pc := (sys_pc s)(t := (if d_clk (sys_data s) = None then At_lookup else At_unlock_cached))\<rparr>"
  by (simp add: step_def goto_def split: option.splits)

lemma step_At_unlock_cached:
  "sys_pc s t = At_unlock_cached \<Longrightarrow>
   step envs t s =
     s\<lparr>sys_lock := None, sys_world := mutex_unlock (sys_world s),
       sys_pc := (sys_pc s)(t := At_return_cached)\<rparr>"
  by (simp add: step_def goto_def unlock_def)

lemma step_At_return_cached:
  "sys_pc s t = At_return_cached \<Longrightarrow>
   step envs t s =
     s\<lparr>sys_pc := (sys_pc s)
          (t := Returned (case d_clk (sys_data s) of Some c \<Rightarrow> Inr c | None \<Rightarrow> Inl 0))\<rparr>"
  by (simp add: step_def goto_def)

lemma step_At_lookup:
  "sys_pc s t = At_lookup \<Longrightarrow>
   step envs t s =
     s\<lparr>sys_world := log (Of_get_named_gpio_flags (d_node (sys_data s)) ''enable-gpios'' 0)
                       (sys_world s),
       sys_pc := (sys_pc s)
          (t := (if of_get_named_gpio_ret (envs t) < 0
                 then At_unlock_failed (of_get_named_gpio_ret (envs t))
                 else At_register (of_get_named_gpio_ret (envs t))
                        (of_get_named_gpio_flags_out (envs t))))\<rparr>"
  by (simp add: step_def goto_def of_get_named_gpio_flags_def Let_def)

lemma step_At_unlock_failed:
  "sys_pc s t = At_unlock_failed gpio \<Longrightarrow>
   step envs t s =
     s\<lparr>sys_lock := None, sys_world := mutex_unlock (sys_world s),
       sys_pc := (sys_pc s)(t := At_log_failed gpio)\<rparr>"
  by (simp add: step_def goto_def unlock_def)

lemma step_At_log_failed:
  "sys_pc s t = At_log_failed gpio \<Longrightarrow>
   step envs t s =
     s\<lparr>sys_world :=
         (if gpio \<noteq> - EPROBE_DEFER
          then pr_err (''%s: %s: Can't get 'enable-gpios' DT property'' @ [CHR 0x0A])
                 [S ''of_clk_gpio_delayed_register_get'', S (node_name (d_node (sys_data s)))]
                 (sys_world s)
          else sys_world s),
       sys_pc := (sys_pc s)(t := Returned (Inl gpio))\<rparr>"
  by (simp add: step_def goto_def)

lemma step_At_register:
  "sys_pc s t = At_register gpio gpio_flags \<Longrightarrow>
   step envs t s =
     s\<lparr>sys_world := snd (register_call (envs t) (sys_data s) gpio gpio_flags (sys_world s)),
       sys_pc := (sys_pc s)
          (t := (case fst (register_call (envs t) (sys_data s) gpio gpio_flags (sys_world s)) of
                   Inl err \<Rightarrow> At_unlock_error err
                 | Inr c \<Rightarrow> At_store c))\<rparr>"
  by (simp add: step_def goto_def of_clk_get_parent_name_def register_call_def Let_def
      split: prod.splits sum.splits)

lemma step_At_unlock_error:
  "sys_pc s t = At_unlock_error err \<Longrightarrow>
   step envs t s =
     s\<lparr>sys_lock := None, sys_world := mutex_unlock (sys_world s),
       sys_pc := (sys_pc s)(t := Returned (Inl err))\<rparr>"
  by (simp add: step_def goto_def unlock_def)

lemma step_At_store:
  "sys_pc s t = At_store c \<Longrightarrow>
   step envs t s =
     s\<lparr>sys_data := (sys_data s)\<lparr>d_clk := Some c\<rparr>,
       sys_pc := (sys_pc s)(t := At_unlock_stored c)\<rparr>"
  by (simp add: step_def goto_def)

lemma step_At_unlock_stored:
  "sys_pc s t = At_unlock_stored c \<Longrightarrow>
   step envs t s =
     s\<lparr>sys_lock := None, sys_world := mutex_unlock (sys_world s),
       sys_pc := (sys_pc s)(t := Returned (Inr c))\<rparr>"
  by (simp add: step_def goto_def unlock_def)

lemma step_Returned:
  "sys_pc s t = Returned r \<Longrightarrow> step envs t s = s"
  by (simp add: step_def)

lemmas step_simps = step_At_lock step_At_check step_At_unlock_cached step_At_return_cached
  step_At_lookup step_At_unlock_failed step_At_log_failed step_At_register
  step_At_unlock_error step_At_store step_At_unlock_stored step_Returned













text \<open>A thread that runs alone from \<^verbatim>\<open>mutex_lock\<close> with the mutex free returns after at
  most six statements, with the result, the record and the world of
  \<^verbatim>\<open>of_clk_gpio_delayed_register_get\<close> as translated above.\<close>

lemma run_alone:
  assumes "sys_lock s = None" and "sys_pc s t = At_lock"
  shows "run envs (replicate 6 t) s =
     s\<lparr>sys_data := fst (snd (of_clk_gpio_delayed_register_get (envs t) (sys_data s) (sys_world s))),
       sys_world := snd (snd (of_clk_gpio_delayed_register_get (envs t) (sys_data s) (sys_world s))),
       sys_pc := (sys_pc s)
         (t := Returned (fst (of_clk_gpio_delayed_register_get (envs t) (sys_data s) (sys_world s))))\<rparr>"
proof (cases "d_clk (sys_data s)")
  case (Some c)
  with assms show ?thesis
    by (simp add: numeral_eq_Suc get_cached step_simps mutex_lock_def mutex_unlock_def log_def)
next
  case None
  show ?thesis
  proof (cases "of_get_named_gpio_ret (envs t) < 0")
    case True
    with assms None show ?thesis
      by (simp add: numeral_eq_Suc get_lookup_failed step_simps mutex_lock_def mutex_unlock_def
          log_def lookup_events_def pr_err_def)
  next
    case False
    then have ok: "0 \<le> of_get_named_gpio_ret (envs t)" by simp
    have rc: "register_call (envs t) (sys_data s) (of_get_named_gpio_ret (envs t))
        (of_get_named_gpio_flags_out (envs t))
        (log (Of_get_named_gpio_flags (d_node (sys_data s)) ''enable-gpios'' 0)
           (mutex_lock (sys_world s))) =
      construct_call (envs t) (sys_data s) (sys_world s)"
      by (simp add: register_call_def construct_call_def lookup_events_def mutex_lock_def log_def)
    show ?thesis
    proof (cases "fst (construct_call (envs t) (sys_data s) (sys_world s))")
      case (Inl err)
      with assms None False rc show ?thesis
        by (simp add: numeral_eq_Suc get_construct [OF None ok] step_simps)
    next
      case (Inr c)
      with assms None False rc show ?thesis
        by (simp add: numeral_eq_Suc get_construct [OF None ok] step_simps)
    qed
  qed
qed




end
